theory Spec2Isabelle
  imports Complex_Main
begin

section \<open>Conventions of the embedding\<close>

text \<open>
  Python floats are modelled as \<^typ>\<open>real\<close> (exact arithmetic: no rounding, no NaN, no
  infinities), Python ints as \<^typ>\<open>int\<close>, \<^verbatim>\<open>str\<close> as \<^typ>\<open>string\<close>, \<^verbatim>\<open>None\<close> and a missing
  dictionary key as \<open>None\<close>. A leading underscore of a Python name is dropped. An exception
  is a value of the type \<open>error\<close>.
\<close>

datatype error =
    RuntimeError      \<comment> \<open>\<^verbatim>\<open>RuntimeError("No hay sesion activa")\<close>\<close>
  | ValueError        \<comment> \<open>\<^verbatim>\<open>ValueError\<close> of \<^verbatim>\<open>db.py\<close> and of \<^verbatim>\<open>deque(maxlen=...)\<close>\<close>
  | IndexError        \<comment> \<open>indexing an empty deque\<close>
  | ZeroDivisionError

section \<open>posture\_engine.py\<close>

type_synonym Zone = string

text \<open>\<^verbatim>\<open>def _clamp(x, lo, hi): return lo if x < lo else hi if x > hi else x\<close>\<close>

definition clamp :: "real \<Rightarrow> real \<Rightarrow> real \<Rightarrow> real" where
  "clamp x lo hi = (if x < lo then lo else if x > hi then hi else x)"

record ThresholdSet =
  pitch_g :: real
  pitch_y :: real
  roll_g :: real
  roll_y :: real

definition zone_from_abs :: "real \<Rightarrow> real \<Rightarrow> ThresholdSet \<Rightarrow> Zone" where
  "zone_from_abs pitch roll th =
     (let ap = \<bar>pitch\<bar>; ar = \<bar>roll\<bar> in
      if ap \<le> pitch_g th \<and> ar \<le> roll_g th then ''green''
      else if ap \<le> pitch_y th \<and> ar \<le> roll_y th then ''yellow''
      else ''red'')"

record ModeThresholds =
  thor :: ThresholdSet
  lum :: ThresholdSet

definition desk_thresholds :: ModeThresholds where
  "desk_thresholds =
     \<lparr>thor = \<lparr>pitch_g = 8, pitch_y = 15, roll_g = 7, roll_y = 12\<rparr>,
      lum = \<lparr>pitch_g = 10, pitch_y = 18, roll_g = 7, roll_y = 12\<rparr>\<rparr>"

definition train_thresholds :: ModeThresholds where
  "train_thresholds =
     \<lparr>thor = \<lparr>pitch_g = 12, pitch_y = 20, roll_g = 10, roll_y = 16\<rparr>,
      lum = \<lparr>pitch_g = 14, pitch_y = 24, roll_g = 10, roll_y = 16\<rparr>\<rparr>"

definition DEFAULT_THRESHOLDS :: "string \<rightharpoonup> ModeThresholds" where
  "DEFAULT_THRESHOLDS = [''desk'' \<mapsto> desk_thresholds, ''train'' \<mapsto> train_thresholds]"

record SegmentAngles =
  pitch :: real
  roll :: real
  yaw :: real

record AnnotatedSample =
  ann_ts_ms :: int
  ann_T_pitch :: real
  ann_T_roll :: real
  ann_T_yaw :: real
  ann_L_pitch :: real
  ann_L_roll :: real
  ann_L_yaw :: real
  ann_thor_zone :: Zone
  ann_lum_zone :: Zone
  ann_comp_index :: real

text \<open>
  \<^verbatim>\<open>round(x)\<close> of Python 3 rounds a half to the even neighbour; \<^verbatim>\<open>int(x)\<close> of a float
  truncates towards zero.
\<close>

definition py_round :: "real \<Rightarrow> int" where
  "py_round x =
     (let f = \<lfloor>x\<rfloor>; d = x - of_int f in
      if d < 1/2 then f else if d > 1/2 then f + 1 else if even f then f else f + 1)"

definition py_int :: "real \<Rightarrow> int" where
  "py_int x = (if 0 \<le> x then \<lfloor>x\<rfloor> else \<lceil>x\<rceil>)"

text \<open>
  \<^verbatim>\<open>collections.deque(maxlen=n).append(x)\<close>: the new element goes to the right and, when the
  deque is longer than \<open>n\<close>, elements are discarded from the left.
\<close>

definition deque_append :: "nat \<Rightarrow> 'a list \<Rightarrow> 'a \<Rightarrow> 'a list" where
  "deque_append n xs x = (let ys = xs @ [x] in drop (length ys - n) ys)"

text \<open>
  \<^verbatim>\<open>str.strip().lower()\<close> on the ASCII range: the whitespace characters of \<^verbatim>\<open>str.isspace\<close>
  below 128 are 9..13 and 28..32, and \<open>A..Z\<close> map to \<open>a..z\<close>. Bytes from 128 on are left
  as they are.
\<close>

definition is_space :: "char \<Rightarrow> bool" where
  "is_space c = (let n = (of_char c :: nat) in (9 \<le> n \<and> n \<le> 13) \<or> (28 \<le> n \<and> n \<le> 32))"

definition lower_char :: "char \<Rightarrow> char" where
  "lower_char c = (let n = (of_char c :: nat) in if 65 \<le> n \<and> n \<le> 90 then char_of (n + 32) else c)"

definition strip :: "string \<Rightarrow> string" where
  "strip s = rev (dropWhile is_space (rev (dropWhile is_space s)))"

definition lower :: "string \<Rightarrow> string" where
  "lower s = map lower_char s"

record PostureEngine =
  sample_rate_hz :: real
  comp_window_s :: real
  comp_scale_deg :: real
  comp_maxlen :: nat      \<comment> \<open>the \<^verbatim>\<open>maxlen\<close> of \<^verbatim>\<open>_comp_buf\<close>\<close>
  comp_buf :: "real list"

text \<open>\<^verbatim>\<open>PostureEngine.__init__\<close>; the defaults are 50.0, 10.0 and 25.0.\<close>

definition PostureEngine_init :: "real \<Rightarrow> real \<Rightarrow> real \<Rightarrow> PostureEngine" where
  "PostureEngine_init rate window scale =
     \<lparr>sample_rate_hz = rate, comp_window_s = window, comp_scale_deg = scale,
      comp_maxlen = nat (max 1 (py_round (rate * window))), comp_buf = []\<rparr>"

definition reset :: "PostureEngine \<Rightarrow> PostureEngine" where
  "reset e = e\<lparr>comp_buf := []\<rparr>"

text \<open>
  \<^verbatim>\<open>PostureEngine.thresholds\<close>. The parameters \<^verbatim>\<open>sport\<close> and \<^verbatim>\<open>profile\<close> are not read by
  the source and are left out.
\<close>

definition thresholds :: "string \<Rightarrow> ModeThresholds" where
  "thresholds mode =
     (let m = lower (strip (if mode = [] then ''desk'' else mode)) in
      case DEFAULT_THRESHOLDS m of
        None \<Rightarrow> desk_thresholds
      | Some t \<Rightarrow> t)"

definition annotate ::
  "PostureEngine \<Rightarrow> int \<Rightarrow> SegmentAngles \<Rightarrow> SegmentAngles \<Rightarrow> string \<Rightarrow> PostureEngine \<times> AnnotatedSample" where
  "annotate e ts thr lm mode =
     (let th = thresholds mode;
          thor_zone = zone_from_abs (pitch thr) (roll thr) (thor th);
          lum_zone = zone_from_abs (pitch lm) (roll lm) (lum th);
          diff = pitch lm - pitch thr;
          comp_raw = clamp (\<bar>diff\<bar> / max (comp_scale_deg e) 0.000001 * 100) 0 100;
          buf = deque_append (comp_maxlen e) (comp_buf e) comp_raw;
          comp_index = sum_list buf / max (real (length buf)) 1
      in (e\<lparr>comp_buf := buf\<rparr>,
          \<lparr>ann_ts_ms = ts,
           ann_T_pitch = pitch thr, ann_T_roll = roll thr, ann_T_yaw = yaw thr,
           ann_L_pitch = pitch lm, ann_L_roll = roll lm, ann_L_yaw = yaw lm,
           ann_thor_zone = thor_zone, ann_lum_zone = lum_zone,
           ann_comp_index = comp_index\<rparr>))"

definition compute_risk_index :: "real \<Rightarrow> real \<Rightarrow> real \<Rightarrow> real \<Rightarrow> real" where
  "compute_risk_index duration_s thor_red_s lum_red_s comp_avg =
     (let dur = max duration_s 0.000001;
          thor_red_pct = clamp (thor_red_s / dur) 0 1;
          lum_red_pct = clamp (lum_red_s / dur) 0 1;
          comp = clamp (comp_avg / 100) 0 1;
          risk = 100 * (0.45 * lum_red_pct + 0.35 * thor_red_pct + 0.20 * comp)
      in clamp risk 0 100)"

section \<open>clock\_sync.py\<close>

record SyncParams =
  p_a :: real    \<comment> \<open>\<^verbatim>\<open>a\<close>: slope (drift)\<close>
  p_b :: real    \<comment> \<open>\<^verbatim>\<open>b\<close>: intercept (offset)\<close>

record LinearClockSync =
  pts :: "(real \<times> real) list"
  max_points :: nat     \<comment> \<open>the \<^verbatim>\<open>maxlen\<close> of \<^verbatim>\<open>_pts\<close>\<close>
  min_points :: int
  params :: SyncParams

text \<open>
  \<^verbatim>\<open>LinearClockSync.__init__\<close> (defaults 200 and 12): \<^verbatim>\<open>deque(maxlen=n)\<close> raises
  \<^verbatim>\<open>ValueError\<close> for a negative \<open>n\<close>.
\<close>

definition LinearClockSync_init :: "int \<Rightarrow> int \<Rightarrow> error + LinearClockSync" where
  "LinearClockSync_init maxp minp =
     (if maxp < 0 then Inl ValueError
      else Inr \<lparr>pts = [], max_points = nat maxp, min_points = minp, params = \<lparr>p_a = 1, p_b = 0\<rparr>\<rparr>)"

definition mean :: "real list \<Rightarrow> real" where
  "mean xs = sum_list xs / real (length xs)"

definition sxx_of :: "real list \<Rightarrow> real" where
  "sxx_of xs = sum_list (map (\<lambda>x. (x - mean xs) ^ 2) xs)"

definition sxy_of :: "real list \<Rightarrow> real list \<Rightarrow> real" where
  "sxy_of xs ys = sum_list (map (\<lambda>(x, y). (x - mean xs) * (y - mean ys)) (zip xs ys))"

text \<open>
  \<^verbatim>\<open>LinearClockSync.update\<close>. The two places where the source can raise are branches:
  \<^verbatim>\<open>self._pts[-1]\<close> on an empty deque and the division by \<^verbatim>\<open>n = 0.0\<close>.
\<close>

definition update :: "LinearClockSync \<Rightarrow> real \<Rightarrow> real \<Rightarrow> error + LinearClockSync" where
  "update s imu_ts_ms host_recv_ms =
     (let ps = deque_append (max_points s) (pts s) (imu_ts_ms, host_recv_ms) in
      if int (length ps) < min_points s then
        (if ps = [] then Inl IndexError
         else let (last_imu, last_host) = last ps in
              Inr (s\<lparr>pts := ps, params := \<lparr>p_a = 1, p_b = last_host - last_imu\<rparr>\<rparr>))
      else
        (let xs = map fst ps; ys = map snd ps in
         if xs = [] then Inl ZeroDivisionError
         else let x_mean = mean xs; y_mean = mean ys;
                  sxx = sxx_of xs; sxy = sxy_of xs ys in
              if \<bar>sxx\<bar> < 0.000000001 then
                Inr (s\<lparr>pts := ps, params := \<lparr>p_a = 1, p_b = y_mean - x_mean\<rparr>\<rparr>)
              else
                (let a0 = sxy / sxx; b0 = y_mean - a0 * x_mean; a1 = clamp a0 0.95 1.05
                 in Inr (s\<lparr>pts := ps, params := \<lparr>p_a = a1, p_b = b0\<rparr>\<rparr>))))"

definition to_host_ms :: "LinearClockSync \<Rightarrow> real \<Rightarrow> real" where
  "to_host_ms s imu_ts_ms = p_a (params s) * imu_ts_ms + p_b (params s)"

text \<open>A run of \<^verbatim>\<open>update\<close> calls; the first exception ends it.\<close>

fun updates :: "LinearClockSync \<Rightarrow> (real \<times> real) list \<Rightarrow> error + LinearClockSync" where
  "updates s [] = Inr s"
| "updates s ((imu, host) # cs) =
     (case update s imu host of Inl e \<Rightarrow> Inl e | Inr s' \<Rightarrow> updates s' cs)"

record 'p DualStreamAligner =
  max_age_ms :: int
  last_A :: "(real \<times> real \<times> 'p) option"    \<comment> \<open>\<^verbatim>\<open>(host_ts_ms, imu_ts_ms, payload)\<close>\<close>
  last_B :: "(real \<times> real \<times> 'p) option"

definition DualStreamAligner_init :: "int \<Rightarrow> 'p DualStreamAligner" where
  "DualStreamAligner_init age = \<lparr>max_age_ms = age, last_A = None, last_B = None\<rparr>"

definition push_A :: "'p DualStreamAligner \<Rightarrow> real \<Rightarrow> real \<Rightarrow> 'p \<Rightarrow> 'p DualStreamAligner" where
  "push_A s host_ts_ms imu_ts_ms payload = s\<lparr>last_A := Some (host_ts_ms, imu_ts_ms, payload)\<rparr>"

definition push_B :: "'p DualStreamAligner \<Rightarrow> real \<Rightarrow> real \<Rightarrow> 'p \<Rightarrow> 'p DualStreamAligner" where
  "push_B s host_ts_ms imu_ts_ms payload = s\<lparr>last_B := Some (host_ts_ms, imu_ts_ms, payload)\<rparr>"

text \<open>The inner function \<^verbatim>\<open>_pick\<close> of \<^verbatim>\<open>fused_at\<close>, with the captured \<open>t\<close> and \<^verbatim>\<open>max_age_ms\<close>.\<close>

definition pick :: "real \<Rightarrow> int \<Rightarrow> (real \<times> real \<times> 'p) option \<Rightarrow> ('p \<times> real) option" where
  "pick t age lst =
     (case lst of
        None \<Rightarrow> None
      | Some (ht, it, pl) \<Rightarrow> if t - ht > of_int age then None else Some (pl, it))"

definition fused_at :: "'p DualStreamAligner \<Rightarrow> real \<Rightarrow> ('p \<times> 'p \<times> int \<times> int) option" where
  "fused_at s host_ts_ms =
     (let t = host_ts_ms;
          pa = pick t (max_age_ms s) (last_A s);
          pb = pick t (max_age_ms s) (last_B s)
      in case (pa, pb) of
           (Some x, Some y) \<Rightarrow> Some (fst x, fst y, py_int (snd x), py_int (snd y))
         | _ \<Rightarrow> None)"

section \<open>db.py: the sensor tables\<close>

text \<open>
  The SQLite tables are lists of rows. A \<^verbatim>\<open>DATETIME\<close> written with
  \<^verbatim>\<open>isoformat(timespec="seconds")\<close> is a number of seconds and \<^verbatim>\<open>DATE(...)\<close> of it is the
  number of its day (\<open>seconds div 86400\<close>); a \<^verbatim>\<open>date\<close> is the number of a day. The
  \<^verbatim>\<open>ValueError\<close> checks written in \<^verbatim>\<open>db.py\<close> are branches of the model; failures of SQLite
  itself (a locked file, a violated foreign key) are not modelled: every statement is taken
  to succeed. The row ids of the two sample tables are not kept.
\<close>

record sensor_session_row =
  ss_id :: int
  ss_user_id :: int
  ss_kind :: string
  ss_mode :: string
  ss_sport :: string
  ss_started_at :: int
  ss_ended_at :: "int option"

record raw_row =
  raw_session_id :: int
  raw_ts_ms :: int
  raw_T_pitch :: real
  raw_T_roll :: real
  raw_T_yaw :: real
  raw_L_pitch :: real
  raw_L_roll :: real
  raw_L_yaw :: real
  raw_thor_zone :: Zone
  raw_lum_zone :: Zone
  raw_comp_index :: real
  raw_T_imu_ts_ms :: "int option"
  raw_L_imu_ts_ms :: "int option"

record agg_row =
  agg_session_id :: int
  agg_ts_s :: int
  agg_T_pitch :: real
  agg_L_pitch :: real
  agg_thor_zone :: Zone
  agg_lum_zone :: Zone
  agg_comp_index :: real

text \<open>
  A row of \<^verbatim>\<open>session_summary\<close>. Its only writer is \<^verbatim>\<open>upsert_session_summary\<close>, which stores
  \<^verbatim>\<open>float(...)\<close> or \<^verbatim>\<open>int(...)\<close> of each argument, so no column of a row is \<^verbatim>\<open>NULL\<close>.
\<close>

record session_summary_row =
  sm_session_id :: int
  sm_duration_s :: real
  sm_thor_red_s :: real
  sm_lum_red_s :: real
  sm_alerts_count :: int
  sm_comp_avg :: real
  sm_comp_peak :: real
  sm_risk_index :: real

text \<open>The payload of \<^verbatim>\<open>recompute_daily_summary\<close>, also the row of \<^verbatim>\<open>daily_summary\<close>.\<close>

record DailySummary =
  ds_user_id :: int
  ds_day :: int
  ds_sessions_count :: int
  ds_duration_s :: real
  ds_thor_red_s :: real
  ds_lum_red_s :: real
  ds_alerts_count :: int
  ds_comp_avg :: real
  ds_comp_peak :: real
  ds_risk_index_avg :: real
  ds_risk_index_max :: real

record Db =
  db_sensor_sessions :: "sensor_session_row list"
  db_sensor_sessions_seq :: int     \<comment> \<open>\<^verbatim>\<open>AUTOINCREMENT\<close>: the largest id given so far\<close>
  db_sensor_samples_raw :: "raw_row list"
  db_sensor_samples_agg :: "agg_row list"
  db_session_summary :: "session_summary_row list"
  db_daily_summary :: "DailySummary list"

definition empty_db :: Db where
  "empty_db = \<lparr>db_sensor_sessions = [], db_sensor_sessions_seq = 0, db_sensor_samples_raw = [],
     db_sensor_samples_agg = [], db_session_summary = [], db_daily_summary = []\<rparr>"

definition start_sensor_session ::
  "Db \<Rightarrow> int \<Rightarrow> string \<Rightarrow> string \<Rightarrow> string \<Rightarrow> int \<Rightarrow> error + (Db \<times> int)" where
  "start_sensor_session db user_id kind mode sport started_at =
     (let kind' = strip kind in
      if kind' \<notin> {''monitor'', ''routine'', ''baseline''} then Inl ValueError
      else let sid = db_sensor_sessions_seq db + 1;
               row = \<lparr>ss_id = sid, ss_user_id = user_id, ss_kind = kind', ss_mode = mode,
                      ss_sport = sport, ss_started_at = started_at, ss_ended_at = None\<rparr>
           in Inr (db\<lparr>db_sensor_sessions := db_sensor_sessions db @ [row],
                      db_sensor_sessions_seq := sid\<rparr>, sid))"





text \<open>
  The SQL aggregates over the selected rows: \<^verbatim>\<open>SUM\<close>, \<^verbatim>\<open>AVG\<close> and \<^verbatim>\<open>MAX\<close> are \<^verbatim>\<open>NULL\<close> on no
  row, and \<^verbatim>\<open>COALESCE(x, d)\<close> replaces \<^verbatim>\<open>NULL\<close> by \<open>d\<close>.
\<close>

definition sql_sum :: "'a::monoid_add list \<Rightarrow> 'a option" where
  "sql_sum xs = (if xs = [] then None else Some (sum_list xs))"

definition sql_avg :: "real list \<Rightarrow> real option" where
  "sql_avg xs = (if xs = [] then None else Some (sum_list xs / real (length xs)))"

definition sql_max :: "real list \<Rightarrow> real option" where
  "sql_max xs = (case xs of [] \<Rightarrow> None | x # rest \<Rightarrow> Some (fold max rest x))"

definition coalesce :: "'a option \<Rightarrow> 'a \<Rightarrow> 'a" where
  "coalesce v d = (case v of None \<Rightarrow> d | Some x \<Rightarrow> x)"

text \<open>
  The \<^verbatim>\<open>FROM sensor_sessions s JOIN session_summary ss ON ss.session_id = s.id WHERE ...\<close>
  of \<^verbatim>\<open>recompute_daily_summary\<close>.
\<close>

definition day_summaries :: "Db \<Rightarrow> int \<Rightarrow> int \<Rightarrow> session_summary_row list" where
  "day_summaries db user_id d =
     concat (map (\<lambda>s. filter (\<lambda>ss. sm_session_id ss = ss_id s
                                   \<and> ss_user_id s = user_id
                                   \<and> ss_started_at s div 86400 = d
                                   \<and> ss_ended_at s \<noteq> None)
                              (db_session_summary db))
                 (db_sensor_sessions db))"

text \<open>\<^verbatim>\<open>INSERT INTO daily_summary ... ON CONFLICT(user_id, day) DO UPDATE\<close>.\<close>

definition upsert_daily_summary :: "Db \<Rightarrow> DailySummary \<Rightarrow> Db" where
  "upsert_daily_summary db row =
     (if \<exists>r \<in> set (db_daily_summary db). ds_user_id r = ds_user_id row \<and> ds_day r = ds_day row
      then db\<lparr>db_daily_summary :=
                map (\<lambda>r. if ds_user_id r = ds_user_id row \<and> ds_day r = ds_day row then row else r)
                    (db_daily_summary db)\<rparr>
      else db\<lparr>db_daily_summary := db_daily_summary db @ [row]\<rparr>)"

definition recompute_daily_summary :: "Db \<Rightarrow> int \<Rightarrow> int \<Rightarrow> Db \<times> DailySummary" where
  "recompute_daily_summary db user_id d =
     (let rows = day_summaries db user_id d;
          payload =
            \<lparr>ds_user_id = user_id,
             ds_day = d,
             ds_sessions_count = int (length rows),
             ds_duration_s = coalesce (sql_sum (map sm_duration_s rows)) 0,
             ds_thor_red_s = coalesce (sql_sum (map sm_thor_red_s rows)) 0,
             ds_lum_red_s = coalesce (sql_sum (map sm_lum_red_s rows)) 0,
             ds_alerts_count = coalesce (sql_sum (map sm_alerts_count rows)) 0,
             ds_comp_avg = coalesce (sql_avg (map sm_comp_avg rows)) 0,
             ds_comp_peak = coalesce (sql_max (map sm_comp_peak rows)) 0,
             ds_risk_index_avg = coalesce (sql_avg (map sm_risk_index rows)) 0,
             ds_risk_index_max = coalesce (sql_max (map sm_risk_index rows)) 0\<rparr>
      in (upsert_daily_summary db payload, payload))"

section \<open>session\_recorder.py\<close>

text \<open>
  The host clock is an input: \<open>clk i\<close> is what the \<open>i\<close>-th reading of the clock returns, in
  milliseconds. \<^verbatim>\<open>_now_ms()\<close>, \<^verbatim>\<open>datetime.now()\<close> and \<^verbatim>\<open>date.today()\<close> each take one reading.
  The world outside the recorder is the database and the number of readings taken.
\<close>

record World =
  w_db :: Db
  w_tick :: nat

definition now_ms :: "(nat \<Rightarrow> int) \<Rightarrow> World \<Rightarrow> int \<times> World" where
  "now_ms clk w = (clk (w_tick w), w\<lparr>w_tick := Suc (w_tick w)\<rparr>)"

record RecorderConfig =
  cfg_user_id :: int
  cfg_kind :: string
  cfg_mode :: string
  cfg_sport :: string
  cfg_sample_rate_hz :: real
  cfg_flush_every_s :: real


record SessionRecorder =
  r_cfg :: RecorderConfig
  r_session_id :: "int option"
  r_engine :: PostureEngine
  r_raw_rows :: "raw_row list"
  r_last_flush_ms :: "int option"
  r_n :: int
  r_thor_red :: int
  r_lum_red :: int
  r_alerts :: int
  r_comp_sum :: real
  r_comp_peak :: real
  r_last_thor_zone :: "Zone option"
  r_last_lum_zone :: "Zone option"
  r_agg_rows :: "agg_row list"
  r_last_agg_s :: "int option"

definition SessionRecorder_init :: "RecorderConfig \<Rightarrow> SessionRecorder" where
  "SessionRecorder_init cfg =
     \<lparr>r_cfg = cfg, r_session_id = None,
      r_engine = PostureEngine_init (cfg_sample_rate_hz cfg) 10 25,
      r_raw_rows = [], r_last_flush_ms = None,
      r_n = 0, r_thor_red = 0, r_lum_red = 0, r_alerts = 0, r_comp_sum = 0, r_comp_peak = 0,
      r_last_thor_zone = None, r_last_lum_zone = None,
      r_agg_rows = [], r_last_agg_s = None\<rparr>"

definition start_session ::
  "(nat \<Rightarrow> int) \<Rightarrow> SessionRecorder \<times> World \<Rightarrow> (SessionRecorder \<times> World) \<times> (error + int)" where
  "start_session clk rw =
     (let (r, w) = rw in
      case r_session_id r of
        Some sid \<Rightarrow> ((r, w), Inr sid)
      | None \<Rightarrow>
          (let (t, w1) = now_ms clk w in
           case start_sensor_session (w_db w1) (cfg_user_id (r_cfg r)) (cfg_kind (r_cfg r))
                  (cfg_mode (r_cfg r)) (cfg_sport (r_cfg r)) (t div 1000) of
             Inl e \<Rightarrow> ((r, w1), Inl e)
           | Inr (db', sid) \<Rightarrow>
               (let (t2, w2) = now_ms clk (w1\<lparr>w_db := db'\<rparr>)
                in ((r\<lparr>r_session_id := Some sid, r_last_flush_ms := Some t2\<rparr>, w2), Inr sid))))"












section \<open>views/athlete/monitor\_view.py: the recording loop of the monitor\<close>

text \<open>
  The entry of \<^verbatim>\<open>_STATS_MAIN\<close> for one recording, with the keys that the per-sample loop,
  the sample cursor and the stop branch read or write. The alert texts are written without
  their accents and with \<open>>=\<close>.
\<close>

record Stats =
  st_last_ts_ms :: int
  st_prev_ts_ms :: "int option"
  st_first_ts_ms :: "int option"
  st_thor_red_s :: real
  st_lum_red_s :: real
  st_comp_sum :: real
  st_comp_peak :: real
  st_samples :: int
  st_alerts_count :: int
  st_thor_red_streak_s :: real
  st_lum_red_streak_s :: real
  st_comp_high_streak_s :: real
  st_cooldown :: "string \<rightharpoonup> int"
  st_live_alerts :: "string list"
  st_last_thor_zone :: Zone
  st_last_lum_zone :: Zone
  st_last_comp :: real


text \<open>A row of \<^verbatim>\<open>new_rows\<close>: the keys that the loop reads.\<close>

record Row =
  row_ts_ms :: int
  row_thor_zone :: Zone
  row_lum_zone :: Zone
  row_comp_index :: real

definition cooldown_ms :: int where
  "cooldown_ms = 5000"

text \<open>The inner function \<^verbatim>\<open>push_alert(key, text)\<close>, with the captured \<^verbatim>\<open>now_ms\<close> and \<^verbatim>\<open>stats\<close>.\<close>

definition push_alert :: "int \<Rightarrow> string \<Rightarrow> string \<Rightarrow> Stats \<Rightarrow> Stats" where
  "push_alert now key txt st =
     (let last_fire = (case st_cooldown st key of None \<Rightarrow> 0 | Some v \<Rightarrow> v) in
      if now - last_fire < cooldown_ms then st
      else (let la = st_live_alerts st @ [txt] in
            st\<lparr>st_cooldown := (st_cooldown st)(key \<mapsto> now),
               st_alerts_count := st_alerts_count st + 1,
               st_live_alerts := drop (length la - 5) la\<rparr>))"

text \<open>
  The body of \<^verbatim>\<open>for r in new_rows\<close>, in its blocks: the time step \<^verbatim>\<open>dt_s\<close>; the dwell
  times, compensation statistics and streaks; and the three alert checks at
  \<^verbatim>\<open>now_ms = ts_ms\<close>.
\<close>

definition dt_s_of :: "Stats \<Rightarrow> int \<Rightarrow> real" where
  "dt_s_of st ts_ms =
     (case st_prev_ts_ms st of
        None \<Rightarrow> 0.02
      | Some prev \<Rightarrow>
          (let d = max 0 (real_of_int (ts_ms - prev) / 1000)
           in if d \<le> 0 then 0.02 else d))"

definition accumulate_row :: "Stats \<Rightarrow> Row \<Rightarrow> Stats" where
  "accumulate_row st r =
     (let ts_ms = row_ts_ms r;
          dt_s = dt_s_of st ts_ms;
          thor_red = (row_thor_zone r = ''red'');
          lum_red = (row_lum_zone r = ''red'');
          comp_i = row_comp_index r
      in st\<lparr>st_prev_ts_ms := Some ts_ms,
            st_thor_red_s := (if thor_red then st_thor_red_s st + dt_s else st_thor_red_s st),
            st_thor_red_streak_s := (if thor_red then st_thor_red_streak_s st + dt_s else 0),
            st_lum_red_s := (if lum_red then st_lum_red_s st + dt_s else st_lum_red_s st),
            st_lum_red_streak_s := (if lum_red then st_lum_red_streak_s st + dt_s else 0),
            st_comp_sum := st_comp_sum st + comp_i,
            st_comp_peak := max (st_comp_peak st) comp_i,
            st_samples := st_samples st + 1,
            st_comp_high_streak_s :=
              (if comp_i \<ge> 60 then st_comp_high_streak_s st + dt_s else 0),
            st_last_thor_zone := row_thor_zone r,
            st_last_lum_zone := row_lum_zone r,
            st_last_comp := comp_i\<rparr>)"

definition fire_alerts :: "int \<Rightarrow> Stats \<Rightarrow> Stats" where
  "fire_alerts now st =
     (let st2 = (if st_thor_red_streak_s st \<ge> 3
                 then push_alert now ''thor'' ''Toracica en rojo >= 3s'' st else st);
          st3 = (if st_lum_red_streak_s st2 \<ge> 3
                 then push_alert now ''lum'' ''Lumbar en rojo >= 3s'' st2 else st2);
          st4 = (if st_comp_high_streak_s st3 \<ge> 2
                 then push_alert now ''comp'' ''Compensacion alta >= 2s'' st3 else st3)
      in st4)"

definition process_row :: "Stats \<Rightarrow> Row \<Rightarrow> Stats" where
  "process_row st r = fire_alerts (row_ts_ms r) (accumulate_row st r)"

fun process_rows :: "Stats \<Rightarrow> Row list \<Rightarrow> Stats" where
  "process_rows st [] = st"
| "process_rows st (r # rs) = process_rows (process_row st r) rs"

text \<open>
  One tick of the callback while recording, on the rows that
  \<^verbatim>\<open>_get_samples_since_from_window\<close> returns: that function has stored the timestamp of the
  last row in \<^verbatim>\<open>last_ts_ms\<close>; the callback stores the first timestamp of the recording and
  runs the loop.
\<close>

definition record_tick :: "Stats \<Rightarrow> Row list \<Rightarrow> Stats" where
  "record_tick st new_rows =
     (case new_rows of
        [] \<Rightarrow> st
      | r0 # _ \<Rightarrow>
          (let st0 = st\<lparr>st_last_ts_ms := row_ts_ms (last new_rows)\<rparr>;
               st1 = (if st_first_ts_ms st0 = None
                      then st0\<lparr>st_first_ts_ms := Some (row_ts_ms r0)\<rparr> else st0)
           in process_rows st1 new_rows))"

fun record_ticks :: "Stats \<Rightarrow> Row list list \<Rightarrow> Stats" where
  "record_ticks st [] = st"
| "record_ticks st (b # bs) = record_ticks (record_tick st b) bs"




text \<open>\<^verbatim>\<open>_zone_from_angles\<close>: the thresholds are read from a dictionary, with defaults.\<close>

definition zone_from_angles :: "real \<Rightarrow> real \<Rightarrow> (string \<rightharpoonup> real) \<Rightarrow> Zone" where
  "zone_from_angles pitch_deg roll_deg thr =
     (let pg = coalesce (thr ''pitch_g'') 8;
          py = coalesce (thr ''pitch_y'') 15;
          rg = coalesce (thr ''roll_g'') 7;
          ry = coalesce (thr ''roll_y'') 12;
          ap = \<bar>pitch_deg\<bar>; ar = \<bar>roll_deg\<bar>
      in if ap \<le> pg \<and> ar \<le> rg then ''green''
         else if ap \<le> py \<and> ar \<le> ry then ''yellow''
         else ''red'')"

section \<open>Notions used in the statements\<close>

subsection \<open>The risk index of the specification\<close>

text \<open>
  The risk index as the specification words it: each fraction is the raw value divided by
  the duration (or by 100), clamped to \<open>[0,1]\<close>, and the weighted sum is clamped again.
\<close>

definition risk_index_spec :: "real \<Rightarrow> real \<Rightarrow> real \<Rightarrow> real \<Rightarrow> real" where
  "risk_index_spec duration_s thor_red_s lum_red_s comp_avg =
     (let lum_red_fraction = clamp (lum_red_s / duration_s) 0 1;
          thor_red_fraction = clamp (thor_red_s / duration_s) 0 1;
          comp_fraction = clamp (comp_avg / 100) 0 1
      in 100 * clamp (0.45 * lum_red_fraction + 0.35 * thor_red_fraction + 0.20 * comp_fraction) 0 1)"

subsection \<open>Runs and counts\<close>

text \<open>
  A run of \<^verbatim>\<open>PostureEngine.annotate\<close> calls on one engine, and the property of the rolling
  window that every stored value lies in \<open>[0,100]\<close>.
\<close>

fun annotate_seq ::
  "PostureEngine \<Rightarrow> (int \<times> SegmentAngles \<times> SegmentAngles \<times> string) list
     \<Rightarrow> PostureEngine \<times> AnnotatedSample list" where
  "annotate_seq e [] = (e, [])"
| "annotate_seq e ((ts, thr, lm, mode) # rest) =
     (let (e1, ann) = annotate e ts thr lm mode;
          (e2, anns) = annotate_seq e1 rest
      in (e2, ann # anns))"

definition comp_buf_in_range :: "PostureEngine \<Rightarrow> bool" where
  "comp_buf_in_range e = list_all (\<lambda>x. 0 \<le> x \<and> x \<le> 100) (comp_buf e)"






definition valid_kind :: "string \<Rightarrow> bool" where
  "valid_kind k = (strip k \<in> {''monitor'', ''routine'', ''baseline''})"

subsection \<open>Alerts of the monitor's loop\<close>




definition last_fire :: "Stats \<Rightarrow> string \<Rightarrow> int" where
  "last_fire st k = (case st_cooldown st k of None \<Rightarrow> 0 | Some v \<Rightarrow> v)"





subsection \<open>Inputs of the examples\<close>

text \<open>
  A clock that advances by one second per reading, a recorder configuration at 50 Hz, the
  same at \<^verbatim>\<open>5e-7\<close> Hz and the same with a kind that the database refuses, an empty world, samples and rows that carry their zones, and a
  database with three ended sessions on day 3.
\<close>

definition demo_clk :: "nat \<Rightarrow> int" where
  "demo_clk i = 259200000 + 1000 * int i"

definition demo_cfg :: RecorderConfig where
  "demo_cfg = \<lparr>cfg_user_id = 7, cfg_kind = ''monitor'', cfg_mode = ''desk'', cfg_sport = ''gym'',
                cfg_sample_rate_hz = 50, cfg_flush_every_s = 2\<rparr>"

definition demo_world :: World where
  "demo_world = \<lparr>w_db = empty_db, w_tick = 0\<rparr>"


definition demo_db :: Db where
  "demo_db = empty_db
     \<lparr>db_sensor_sessions :=
        [\<lparr>ss_id = 1, ss_user_id = 7, ss_kind = ''monitor'', ss_mode = ''desk'', ss_sport = ''gym'',
          ss_started_at = 86400 * 3 + 100, ss_ended_at = Some (86400 * 3 + 200)\<rparr>,
         \<lparr>ss_id = 2, ss_user_id = 7, ss_kind = ''monitor'', ss_mode = ''desk'', ss_sport = ''gym'',
          ss_started_at = 86400 * 3 + 300, ss_ended_at = Some (86400 * 3 + 400)\<rparr>,
         \<lparr>ss_id = 3, ss_user_id = 8, ss_kind = ''monitor'', ss_mode = ''desk'', ss_sport = ''gym'',
          ss_started_at = 86400 * 3 + 300, ss_ended_at = Some (86400 * 3 + 400)\<rparr>],
      db_sensor_sessions_seq := 3,
      db_session_summary :=
        [\<lparr>sm_session_id = 1, sm_duration_s = 100, sm_thor_red_s = 10, sm_lum_red_s = 5,
          sm_alerts_count = 2, sm_comp_avg = 20, sm_comp_peak = 50, sm_risk_index = 40\<rparr>,
         \<lparr>sm_session_id = 2, sm_duration_s = 100, sm_thor_red_s = 30, sm_lum_red_s = 15,
          sm_alerts_count = 3, sm_comp_avg = 40, sm_comp_peak = 90, sm_risk_index = 80\<rparr>,
         \<lparr>sm_session_id = 3, sm_duration_s = 50, sm_thor_red_s = 0, sm_lum_red_s = 0,
          sm_alerts_count = 0, sm_comp_avg = 0, sm_comp_peak = 0, sm_risk_index = 0\<rparr>]\<rparr>"




section \<open>Properties\<close>

subsection \<open>Clamping\<close>

lemma clamp_range: "lo \<le> hi \<Longrightarrow> lo \<le> clamp x lo hi \<and> clamp x lo hi \<le> hi"
  by (simp add: clamp_def)

lemma clamp_id: "lo \<le> x \<Longrightarrow> x \<le> hi \<Longrightarrow> clamp x lo hi = x"
  by (simp add: clamp_def)

subsection \<open>The risk index\<close>

lemma weighted_unit:
  fixes u v w :: real
  assumes "0 \<le> u" "u \<le> 1" "0 \<le> v" "v \<le> 1" "0 \<le> w" "w \<le> 1"
  shows "0 \<le> 0.45 * u + 0.35 * v + 0.20 * w" "0.45 * u + 0.35 * v + 0.20 * w \<le> 1"
  using assms by auto

lemma risk_general:
  "compute_risk_index d t l c =
     100 * clamp (0.45 * clamp (l / max d 0.000001) 0 1 + 0.35 * clamp (t / max d 0.000001) 0 1
                  + 0.20 * clamp (c / 100) 0 1) 0 1"
proof -
  define u where "u = clamp (l / max d 0.000001) 0 1"
  define v where "v = clamp (t / max d 0.000001) 0 1"
  define w where "w = clamp (c / 100) 0 1"
  have bounds: "0 \<le> u" "u \<le> 1" "0 \<le> v" "v \<le> 1" "0 \<le> w" "w \<le> 1"
    using clamp_range[of 0 1] by (simp_all add: u_def v_def w_def)
  note unit = weighted_unit[OF bounds]
  have "compute_risk_index d t l c = clamp (100 * (0.45 * u + 0.35 * v + 0.20 * w)) 0 100"
    by (simp add: compute_risk_index_def Let_def u_def v_def w_def)
  also have "\<dots> = 100 * (0.45 * u + 0.35 * v + 0.20 * w)"
    using unit by (intro clamp_id) auto
  also have "\<dots> = 100 * clamp (0.45 * u + 0.35 * v + 0.20 * w) 0 1"
    using unit by (simp add: clamp_id)
  finally show ?thesis by (simp add: u_def v_def w_def)
qed

text \<open>
  C1 (amended). \<^verbatim>\<open>compute_risk_index\<close> divides the red seconds by
  \<^verbatim>\<open>max(duration_s, 1e-6)\<close>, not by \<^verbatim>\<open>duration_s\<close>: for all arguments the result is 100 times
  the clamp to \<open>[0,1]\<close> of \<open>0.45 * lum + 0.35 * thor + 0.20 * comp\<close>, where \<open>lum\<close> and
  \<open>thor\<close> are the red seconds over \<^verbatim>\<open>max(duration_s, 1e-6)\<close> and \<open>comp\<close> is
  \<^verbatim>\<open>comp_avg / 100\<close>, each clamped to \<open>[0,1]\<close>; the result lies in \<open>[0,100]\<close>; and for a
  duration of at least \<^verbatim>\<open>1e-6\<close> it is the formula of the specification.
\<close>

theorem C1_risk_index:
  "compute_risk_index d t l c =
     100 * clamp (0.45 * clamp (l / max d 0.000001) 0 1 + 0.35 * clamp (t / max d 0.000001) 0 1
                  + 0.20 * clamp (c / 100) 0 1) 0 1
   \<and> 0 \<le> compute_risk_index d t l c \<and> compute_risk_index d t l c \<le> 100
   \<and> (0.000001 \<le> d \<longrightarrow> compute_risk_index d t l c = risk_index_spec d t l c)"
proof -
  have range: "0 \<le> compute_risk_index d t l c \<and> compute_risk_index d t l c \<le> 100"
    using clamp_range[of 0 100] by (simp add: compute_risk_index_def Let_def)
  have "compute_risk_index d t l c = risk_index_spec d t l c" if "0.000001 \<le> d"
  proof -
    have m: "max d 0.000001 = d" using that by (simp add: max_def)
    show ?thesis unfolding risk_general risk_index_spec_def Let_def m ..
  qed
  with range risk_general show ?thesis by blast
qed

text \<open>A session of 10 s with 5 s of thoracic red, 2 s of lumbar red and compensation 50.\<close>

theorem C1_risk_index_witness:
  "(0.000001::real) \<le> 10 \<and> compute_risk_index 10 5 2 50 = 73/2
   \<and> risk_index_spec 10 5 2 50 = 73/2"
  using C1_risk_index[of 10 5 2 50] by (simp add: risk_index_spec_def clamp_def)

text \<open>
  C1 as stated fails below \<^verbatim>\<open>1e-6\<close>: for a duration of \<^verbatim>\<open>5e-7\<close> s with \<^verbatim>\<open>2.5e-7\<close> s of
  lumbar red the code returns 11.25, the formula of the specification 22.5.
\<close>

theorem C1_short_duration_counterexample:
  "compute_risk_index (1/2000000) 0 (1/4000000) 0 = 45/4
   \<and> risk_index_spec (1/2000000) 0 (1/4000000) 0 = 45/2"
  by (simp add: compute_risk_index_def risk_index_spec_def clamp_def)

subsection \<open>The posture classifier\<close>

text \<open>
  C5. For every pitch, roll and threshold set, \<^verbatim>\<open>_zone_from_abs\<close> returns green when
  \<open>\<bar>pitch\<bar> \<le> pitch_g\<close> and \<open>\<bar>roll\<bar> \<le> roll_g\<close>, otherwise yellow when
  \<open>\<bar>pitch\<bar> \<le> pitch_y\<close> and \<open>\<bar>roll\<bar> \<le> roll_y\<close>, otherwise red (the ordering
  \<open>pitch_g \<le> pitch_y\<close>, \<open>roll_g \<le> roll_y\<close> of the thresholds is not needed for this); at
  \<open>(0, 0)\<close> it returns green for non-negative green bounds; and \<^verbatim>\<open>_zone_from_angles\<close> of the
  monitor view, given a dictionary with the four thresholds, returns the same zone.
\<close>

theorem C5_zone_classifier:
  "zone_from_abs p r th =
     (if \<bar>p\<bar> \<le> pitch_g th \<and> \<bar>r\<bar> \<le> roll_g th then ''green''
      else if \<bar>p\<bar> \<le> pitch_y th \<and> \<bar>r\<bar> \<le> roll_y th then ''yellow'' else ''red'')
   \<and> (0 \<le> pitch_g th \<and> 0 \<le> roll_g th \<longrightarrow> zone_from_abs 0 0 th = ''green'')
   \<and> zone_from_angles p r [''pitch_g'' \<mapsto> pg, ''pitch_y'' \<mapsto> py, ''roll_g'' \<mapsto> rg, ''roll_y'' \<mapsto> ry]
       = zone_from_abs p r \<lparr>pitch_g = pg, pitch_y = py, roll_g = rg, roll_y = ry\<rparr>"
  by (simp add: zone_from_abs_def zone_from_angles_def coalesce_def Let_def)

text \<open>The thoracic desk thresholds at three points, one in each zone.\<close>

theorem C5_zone_classifier_witness:
  "0 \<le> pitch_g (thor desk_thresholds) \<and> 0 \<le> roll_g (thor desk_thresholds)
   \<and> zone_from_abs 0 0 (thor desk_thresholds) = ''green''
   \<and> zone_from_abs 9 0 (thor desk_thresholds) = ''yellow''
   \<and> zone_from_abs 9 13 (thor desk_thresholds) = ''red''"
  using C5_zone_classifier[of 0 0 "thor desk_thresholds"]
    C5_zone_classifier[of 9 0 "thor desk_thresholds"]
    C5_zone_classifier[of 9 13 "thor desk_thresholds"]
  by (simp add: desk_thresholds_def)

subsection \<open>The compensation index\<close>

lemma sum_list_bounds:
  fixes xs :: "real list"
  assumes "list_all (\<lambda>x. 0 \<le> x \<and> x \<le> c) xs"
  shows "0 \<le> sum_list xs \<and> sum_list xs \<le> c * real (length xs)"
  using assms by (induction xs) (auto simp: algebra_simps)

lemma mean_bounds:
  fixes xs :: "real list"
  assumes "list_all (\<lambda>x. 0 \<le> x \<and> x \<le> c) xs" "0 \<le> c"
  shows "0 \<le> sum_list xs / max (real (length xs)) 1 \<and> sum_list xs / max (real (length xs)) 1 \<le> c"
proof (cases xs)
  case Nil
  then show ?thesis using assms by simp
next
  case (Cons x ys)
  then have len: "max (real (length xs)) 1 = real (length xs)" and pos: "0 < real (length xs)"
    by simp_all
  from sum_list_bounds[OF assms(1)] pos show ?thesis
    unfolding len by (simp add: field_simps)
qed

lemma deque_append_all:
  assumes "list_all P xs" "P x"
  shows "list_all P (deque_append n xs x)"
proof -
  have "set (deque_append n xs x) \<subseteq> set (xs @ [x])"
    unfolding deque_append_def Let_def by (rule set_drop_subset)
  with assms show ?thesis by (auto simp: list_all_iff)
qed

lemma annotate_comp_buf:
  "comp_buf (fst (annotate e ts thr lm mode)) =
     deque_append (comp_maxlen e) (comp_buf e)
       (clamp (\<bar>pitch lm - pitch thr\<bar> / max (comp_scale_deg e) 0.000001 * 100) 0 100)"
  by (simp add: annotate_def Let_def)

lemma annotate_comp_index:
  "ann_comp_index (snd (annotate e ts thr lm mode)) =
     sum_list (comp_buf (fst (annotate e ts thr lm mode)))
       / max (real (length (comp_buf (fst (annotate e ts thr lm mode))))) 1"
  by (simp add: annotate_def Let_def)

lemma annotate_invariant:
  assumes "comp_buf_in_range e"
  shows "comp_buf_in_range (fst (annotate e ts thr lm mode))"
  using assms clamp_range[of 0 100]
  unfolding comp_buf_in_range_def annotate_comp_buf
  by (intro deque_append_all) simp_all

lemma annotate_comp_index_range:
  assumes "comp_buf_in_range e"
  shows "0 \<le> ann_comp_index (snd (annotate e ts thr lm mode))
       \<and> ann_comp_index (snd (annotate e ts thr lm mode)) \<le> 100"
  using mean_bounds[of 100 "comp_buf (fst (annotate e ts thr lm mode))"]
    annotate_invariant[OF assms, of ts thr lm mode]
  unfolding annotate_comp_index comp_buf_in_range_def by simp

lemma annotate_seq_range:
  "comp_buf_in_range e \<Longrightarrow>
   list_all (\<lambda>ann. 0 \<le> ann_comp_index ann \<and> ann_comp_index ann \<le> 100) (snd (annotate_seq e inputs))"
proof (induction inputs arbitrary: e)
  case Nil
  then show ?case by simp
next
  case (Cons i inputs)
  obtain ts thr lm mode where i: "i = (ts, thr, lm, mode)" by (cases i) auto
  obtain e1 ann where s: "annotate e ts thr lm mode = (e1, ann)"
    by (cases "annotate e ts thr lm mode")
  have e1: "comp_buf_in_range e1"
    using annotate_invariant[OF Cons.prems, of ts thr lm mode] s by simp
  have ann: "0 \<le> ann_comp_index ann \<and> ann_comp_index ann \<le> 100"
    using annotate_comp_index_range[OF Cons.prems, of ts thr lm mode] s by simp
  from Cons.IH[OF e1] ann show ?case
    by (cases "annotate_seq e1 inputs") (simp add: i s)
qed

lemma init_in_range: "comp_buf_in_range (PostureEngine_init rate window scale)"
  by (simp add: comp_buf_in_range_def PostureEngine_init_def)

lemma reset_in_range: "comp_buf_in_range (reset e)"
  by (simp add: comp_buf_in_range_def reset_def)

lemma PostureEngine_init_default:
  "PostureEngine_init 50 10 25 =
     \<lparr>sample_rate_hz = 50, comp_window_s = 10, comp_scale_deg = 25, comp_maxlen = 500, comp_buf = []\<rparr>"
  by (simp add: PostureEngine_init_def py_round_def)

text \<open>
  C9. For every engine as constructed (any rate, window and scale) and every sequence of
  angle pairs fed to \<^verbatim>\<open>annotate\<close>, every returned \<^verbatim>\<open>comp_index\<close> lies in \<open>[0,100]\<close>; and
  for every engine state, a call in which the lumbar pitch equals the thoracic pitch appends
  exactly the value 0 to the rolling window.
\<close>

theorem C9_comp_index:
  "list_all (\<lambda>ann. 0 \<le> ann_comp_index ann \<and> ann_comp_index ann \<le> 100)
     (snd (annotate_seq (PostureEngine_init rate window scale) inputs))
   \<and> (pitch lm = pitch thr \<longrightarrow>
        comp_buf (fst (annotate e ts thr lm mode)) = deque_append (comp_maxlen e) (comp_buf e) 0)"
  using annotate_seq_range[OF init_in_range] by (simp add: annotate_comp_buf clamp_def)

text \<open>
  The default engine: a discrepancy of 50 degrees gives the index 100, a following sample
  with equal pitches lowers the mean to 50; on a fresh engine equal pitches give the window
  \<open>[0]\<close>.
\<close>

theorem C9_comp_index_witness:
  "map ann_comp_index (snd (annotate_seq (PostureEngine_init 50 10 25)
          [(0, \<lparr>pitch = 0, roll = 0, yaw = 0\<rparr>, \<lparr>pitch = 50, roll = 0, yaw = 0\<rparr>, ''desk''),
           (20, \<lparr>pitch = 5, roll = 0, yaw = 0\<rparr>, \<lparr>pitch = 5, roll = 0, yaw = 0\<rparr>, ''desk'')]))
     = [100, 50]
   \<and> comp_buf (fst (annotate (PostureEngine_init 50 10 25) 0 \<lparr>pitch = 5, roll = 0, yaw = 0\<rparr>
                      \<lparr>pitch = 5, roll = 0, yaw = 0\<rparr> ''desk'')) = [0]"
  using C9_comp_index[of 50 10 25
        "[(0, \<lparr>pitch = 0, roll = 0, yaw = 0\<rparr>, \<lparr>pitch = 50, roll = 0, yaw = 0\<rparr>, ''desk''),
          (20, \<lparr>pitch = 5, roll = 0, yaw = 0\<rparr>, \<lparr>pitch = 5, roll = 0, yaw = 0\<rparr>, ''desk'')]"
        "\<lparr>pitch = 5, roll = 0, yaw = 0\<rparr>" "\<lparr>pitch = 5, roll = 0, yaw = 0\<rparr>"
        "PostureEngine_init 50 10 25" 0 "''desk''"]
  by (simp add: PostureEngine_init_default annotate_def Let_def deque_append_def clamp_def)

subsection \<open>The dual-stream aligner\<close>

lemma pick_None:
  "pick t age lst = None \<longleftrightarrow>
     (case lst of None \<Rightarrow> True | Some (ht, it, pl) \<Rightarrow> t - ht > of_int age)"
  by (simp add: pick_def split: option.splits prod.splits)

lemma pick_Some:
  "pick t age (Some (ht, it, pl)) = (if t - ht > of_int age then None else Some (pl, it))"
  by (simp add: pick_def)

lemma fused_at_None:
  "fused_at s t = None \<longleftrightarrow>
     pick t (max_age_ms s) (last_A s) = None \<or> pick t (max_age_ms s) (last_B s) = None"
  by (simp add: fused_at_def Let_def split: option.splits)

text \<open>
  C4. For every aligner state and query time \<open>t\<close>, \<^verbatim>\<open>fused_at\<close> returns \<^verbatim>\<open>None\<close> exactly
  when the last sample of some device is missing or has \<open>t - stored_host_ts > max_age_ms\<close>;
  when both are present and within the age bound it returns both payloads and both device
  timestamps (each passed through \<^verbatim>\<open>int(...)\<close>), whatever the distance between the two push
  times.
\<close>

theorem C4_fused_at:
  "(fused_at s t = None \<longleftrightarrow>
      (case last_A s of None \<Rightarrow> True | Some (ht, it, pl) \<Rightarrow> t - ht > of_int (max_age_ms s))
    \<or> (case last_B s of None \<Rightarrow> True | Some (ht, it, pl) \<Rightarrow> t - ht > of_int (max_age_ms s)))
   \<and> (last_A s = Some (hA, iA, plA) \<and> last_B s = Some (hB, iB, plB)
        \<and> t - hA \<le> of_int (max_age_ms s) \<and> t - hB \<le> of_int (max_age_ms s)
      \<longrightarrow> fused_at s t = Some (plA, plB, py_int iA, py_int iB))"
proof -
  have "fused_at s t = Some (plA, plB, py_int iA, py_int iB)"
    if "last_A s = Some (hA, iA, plA)" "last_B s = Some (hB, iB, plB)"
       "t - hA \<le> of_int (max_age_ms s)" "t - hB \<le> of_int (max_age_ms s)"
    using that by (simp add: fused_at_def Let_def pick_Some)
  then show ?thesis unfolding fused_at_None pick_None by blast
qed

text \<open>
  Device A pushed at host time 0 and device B at 200, with \<^verbatim>\<open>max_age_ms = 250\<close>: fused at
  240, stale at 251; with device B missing, nothing is fused.
\<close>

theorem C4_fused_at_witness:
  "last_A (push_B (push_A (DualStreamAligner_init 250) 0 7 ''a'') 200 (15/2) ''b'') = Some (0, 7, ''a'')
   \<and> last_B (push_B (push_A (DualStreamAligner_init 250) 0 7 ''a'') 200 (15/2) ''b'') = Some (200, 15/2, ''b'')
   \<and> fused_at (push_B (push_A (DualStreamAligner_init 250) 0 7 ''a'') 200 (15/2) ''b'') 240
       = Some (''a'', ''b'', 7, 7)
   \<and> fused_at (push_B (push_A (DualStreamAligner_init 250) 0 7 ''a'') 200 (15/2) ''b'') 251 = None
   \<and> fused_at (push_A (DualStreamAligner_init 250) 0 7 ''a'') 10 = None"
  using C4_fused_at[of "push_B (push_A (DualStreamAligner_init 250) 0 7 ''a'') 200 (15/2) ''b''" 240 0 7 "''a''" 200 "15/2" "''b''"]
    C4_fused_at[of "push_B (push_A (DualStreamAligner_init 250) 0 7 ''a'') 200 (15/2) ''b''" 251]
    C4_fused_at[of "push_A (DualStreamAligner_init 250) 0 7 ''a''" 10]
  by (simp add: push_A_def push_B_def DualStreamAligner_init_def py_int_def)

subsection \<open>The clock-sync estimator\<close>

lemma update_cases:
  assumes "update s imu host = Inr s'"
  shows "pts s' = deque_append (max_points s) (pts s) (imu, host) \<and> pts s' \<noteq> []
    \<and> (if int (length (pts s')) < min_points s
        then params s' = \<lparr>p_a = 1, p_b = snd (last (pts s')) - fst (last (pts s'))\<rparr>
        else if \<bar>sxx_of (map fst (pts s'))\<bar> < 0.000000001
        then params s' = \<lparr>p_a = 1, p_b = mean (map snd (pts s')) - mean (map fst (pts s'))\<rparr>
        else params s' =
          \<lparr>p_a = clamp (sxy_of (map fst (pts s')) (map snd (pts s')) / sxx_of (map fst (pts s'))) 0.95 1.05,
           p_b = mean (map snd (pts s'))
                 - sxy_of (map fst (pts s')) (map snd (pts s')) / sxx_of (map fst (pts s'))
                   * mean (map fst (pts s'))\<rparr>)"
  using assms
  by (auto simp: update_def Let_def split: if_splits prod.splits)

lemma update_slope:
  assumes "update s imu host = Inr s'"
  shows "0.95 \<le> p_a (params s') \<and> p_a (params s') \<le> 1.05"
  using update_cases[OF assms] clamp_range[of "0.95" "1.05"]
  by (auto split: if_splits)

lemma deque_append_nonempty: "0 < n \<Longrightarrow> deque_append n xs x \<noteq> []"
  by (simp add: deque_append_def Let_def)

lemma update_total:
  assumes "0 < max_points s"
  shows "\<exists>s'. update s imu host = Inr s'"
  using deque_append_nonempty[OF assms, of "pts s" "(imu, host)"]
  by (simp add: update_def Let_def split: prod.splits)

lemma update_max_points:
  "update s imu host = Inr s' \<Longrightarrow> max_points s' = max_points s"
  by (auto simp: update_def Let_def split: if_splits prod.splits)

lemma updates_total:
  "0 < max_points s \<Longrightarrow> \<exists>s'. updates s cs = Inr s'"
proof (induction cs arbitrary: s)
  case Nil
  then show ?case by simp
next
  case (Cons c cs)
  obtain imu host where c: "c = (imu, host)" by (cases c)
  from update_total[OF Cons.prems] obtain s1 where s1: "update s imu host = Inr s1" by blast
  with Cons.prems have "0 < max_points s1" by (simp add: update_max_points)
  from Cons.IH[OF this] show ?case by (simp add: c s1)
qed

lemma updates_slope:
  "updates s cs = Inr s' \<Longrightarrow> 0.95 \<le> p_a (params s) \<and> p_a (params s) \<le> 1.05
   \<Longrightarrow> 0.95 \<le> p_a (params s') \<and> p_a (params s') \<le> 1.05"
proof (induction cs arbitrary: s)
  case Nil
  then show ?case by simp
next
  case (Cons c cs)
  obtain imu host where c: "c = (imu, host)" by (cases c)
  from Cons.prems(1) obtain s1 where s1: "update s imu host = Inr s1" and rest: "updates s1 cs = Inr s'"
    by (auto simp: c split: sum.splits)
  from Cons.IH[OF rest update_slope[OF s1]] show ?case .
qed


text \<open>
  C6. Every \<^verbatim>\<open>update\<close> that returns leaves a slope in \<open>[0.95, 1.05]\<close>: exactly 1 during
  warm-up and when the variance of the device timestamps is below \<^verbatim>\<open>1e-9\<close>, the clamped
  least-squares slope otherwise, while the intercept is computed from the means and the
  unclamped slope and is not clamped. An estimator constructed with \<^verbatim>\<open>max_points > 0\<close>
  returns from every sequence of \<^verbatim>\<open>update\<close> calls, with a slope in \<open>[0.95, 1.05]\<close>.
\<close>

theorem C6_slope:
  "(update s imu host = Inr s' \<longrightarrow>
      0.95 \<le> p_a (params s') \<and> p_a (params s') \<le> 1.05
      \<and> pts s' = deque_append (max_points s) (pts s) (imu, host)
      \<and> (if int (length (pts s')) < min_points s
          then params s' = \<lparr>p_a = 1, p_b = snd (last (pts s')) - fst (last (pts s'))\<rparr>
          else if \<bar>sxx_of (map fst (pts s'))\<bar> < 0.000000001
          then params s' = \<lparr>p_a = 1, p_b = mean (map snd (pts s')) - mean (map fst (pts s'))\<rparr>
          else params s' =
            \<lparr>p_a = clamp (sxy_of (map fst (pts s')) (map snd (pts s')) / sxx_of (map fst (pts s')))
                     0.95 1.05,
             p_b = mean (map snd (pts s'))
                   - sxy_of (map fst (pts s')) (map snd (pts s')) / sxx_of (map fst (pts s'))
                     * mean (map fst (pts s'))\<rparr>))
   \<and> (0 < maxp \<longrightarrow>
        (\<exists>s0 s1. LinearClockSync_init maxp minp = Inr s0 \<and> updates s0 cs = Inr s1
           \<and> 0.95 \<le> p_a (params s1) \<and> p_a (params s1) \<le> 1.05))"
proof -
  have run: "\<exists>s0 s1. LinearClockSync_init maxp minp = Inr s0 \<and> updates s0 cs = Inr s1
           \<and> 0.95 \<le> p_a (params s1) \<and> p_a (params s1) \<le> 1.05" if "0 < maxp"
  proof -
    define s0 where "s0 = \<lparr>pts = [], max_points = nat maxp, min_points = minp,
                           params = \<lparr>p_a = 1, p_b = 0\<rparr>\<rparr>"
    have i: "LinearClockSync_init maxp minp = Inr s0"
      using that by (simp add: LinearClockSync_init_def s0_def)
    have "0 < max_points s0" using that by (simp add: s0_def)
    from updates_total[OF this] obtain s1 where s1: "updates s0 cs = Inr s1" by blast
    have "0.95 \<le> p_a (params s0) \<and> p_a (params s0) \<le> 1.05" by (simp add: s0_def)
    from updates_slope[OF s1 this] i s1 show ?thesis by blast
  qed
  show ?thesis using update_cases[of s imu host s'] update_slope[of s imu host s'] run by blast
qed

text \<open>
  With \<^verbatim>\<open>min_points = 2\<close>: the first pair is warm-up (slope 1, offset 5); the second gives
  the least-squares slope 2, clamped to 1.05, and the intercept \<open>6 - 2 * 0.5 = 5\<close>; two
  pairs with the same device timestamp fall back to slope 1.
\<close>

theorem C6_slope_witness:
  "LinearClockSync_init 200 2 = Inr \<lparr>pts = [], max_points = 200, min_points = 2, params = \<lparr>p_a = 1, p_b = 0\<rparr>\<rparr>
   \<and> update \<lparr>pts = [], max_points = 200, min_points = 2, params = \<lparr>p_a = 1, p_b = 0\<rparr>\<rparr> 0 5
       = Inr \<lparr>pts = [(0, 5)], max_points = 200, min_points = 2, params = \<lparr>p_a = 1, p_b = 5\<rparr>\<rparr>
   \<and> update \<lparr>pts = [(0, 5)], max_points = 200, min_points = 2, params = \<lparr>p_a = 1, p_b = 5\<rparr>\<rparr> 1 7
       = Inr \<lparr>pts = [(0, 5), (1, 7)], max_points = 200, min_points = 2, params = \<lparr>p_a = 1.05, p_b = 5\<rparr>\<rparr>
   \<and> update \<lparr>pts = [(3, 5)], max_points = 200, min_points = 2, params = \<lparr>p_a = 1, p_b = 2\<rparr>\<rparr> 3 9
       = Inr \<lparr>pts = [(3, 5), (3, 9)], max_points = 200, min_points = 2, params = \<lparr>p_a = 1, p_b = 4\<rparr>\<rparr>"
  using C6_slope[of "\<lparr>pts = [(0, 5)], max_points = 200, min_points = 2, params = \<lparr>p_a = 1, p_b = 5\<rparr>\<rparr>" 1 7
      "\<lparr>pts = [(0, 5), (1, 7)], max_points = 200, min_points = 2, params = \<lparr>p_a = 1.05, p_b = 5\<rparr>\<rparr>" 200 2 "[(0, 5), (1, 7)]"]
  by (simp add: LinearClockSync_init_def update_def deque_append_def mean_def sxx_of_def sxy_of_def
        clamp_def Let_def power2_eq_square)

subsection \<open>The daily summary\<close>

lemma sql_max_Max: "xs \<noteq> [] \<Longrightarrow> sql_max xs = Some (Max (set xs))"
  by (cases xs) (simp_all add: sql_max_def Max.set_eq_fold del: set_simps)

text \<open>
  C8. When the summaries of the ended sessions of a user on a day are \<open>rows\<close> and there is
  at least one, \<^verbatim>\<open>recompute_daily_summary\<close> returns: as \<^verbatim>\<open>sessions_count\<close> their number; as
  \<^verbatim>\<open>duration_s\<close>, \<^verbatim>\<open>thor_red_s\<close>, \<^verbatim>\<open>lum_red_s\<close> and \<^verbatim>\<open>alerts_count\<close> the sums over the
  sessions; as \<^verbatim>\<open>comp_avg\<close> and \<^verbatim>\<open>risk_index_avg\<close> the unweighted means of the sessions'
  \<^verbatim>\<open>comp_avg\<close> and \<^verbatim>\<open>risk_index\<close>; as \<^verbatim>\<open>comp_peak\<close> and \<^verbatim>\<open>risk_index_max\<close> the maxima.
\<close>

theorem C8_daily_summary:
  assumes "day_summaries db uid d = rows" and "rows \<noteq> []"
  shows "ds_sessions_count (snd (recompute_daily_summary db uid d)) = int (length rows)
    \<and> ds_duration_s (snd (recompute_daily_summary db uid d)) = sum_list (map sm_duration_s rows)
    \<and> ds_thor_red_s (snd (recompute_daily_summary db uid d)) = sum_list (map sm_thor_red_s rows)
    \<and> ds_lum_red_s (snd (recompute_daily_summary db uid d)) = sum_list (map sm_lum_red_s rows)
    \<and> ds_alerts_count (snd (recompute_daily_summary db uid d)) = sum_list (map sm_alerts_count rows)
    \<and> ds_comp_avg (snd (recompute_daily_summary db uid d))
        = sum_list (map sm_comp_avg rows) / real (length rows)
    \<and> ds_risk_index_avg (snd (recompute_daily_summary db uid d))
        = sum_list (map sm_risk_index rows) / real (length rows)
    \<and> ds_comp_peak (snd (recompute_daily_summary db uid d)) = Max (set (map sm_comp_peak rows))
    \<and> ds_risk_index_max (snd (recompute_daily_summary db uid d)) = Max (set (map sm_risk_index rows))"
  using assms
  by (simp add: recompute_daily_summary_def Let_def coalesce_def sql_sum_def sql_avg_def sql_max_Max)

lemma demo_rows:
  "day_summaries demo_db 7 3 =
        [\<lparr>sm_session_id = 1, sm_duration_s = 100, sm_thor_red_s = 10, sm_lum_red_s = 5,
          sm_alerts_count = 2, sm_comp_avg = 20, sm_comp_peak = 50, sm_risk_index = 40\<rparr>,
         \<lparr>sm_session_id = 2, sm_duration_s = 100, sm_thor_red_s = 30, sm_lum_red_s = 15,
          sm_alerts_count = 3, sm_comp_avg = 40, sm_comp_peak = 90, sm_risk_index = 80\<rparr>]"
  by (simp add: day_summaries_def demo_db_def empty_db_def)

text \<open>
  Two ended sessions of user 7 on day 3 with risk index 40 and 80 (and a session of another
  user, which is not counted): the average is 60 and the maximum 80.
\<close>

theorem C8_daily_summary_witness:
  "day_summaries demo_db 7 3 \<noteq> []
   \<and> ds_sessions_count (snd (recompute_daily_summary demo_db 7 3)) = 2
   \<and> ds_duration_s (snd (recompute_daily_summary demo_db 7 3)) = 200
   \<and> ds_alerts_count (snd (recompute_daily_summary demo_db 7 3)) = 5
   \<and> ds_comp_avg (snd (recompute_daily_summary demo_db 7 3)) = 30
   \<and> ds_comp_peak (snd (recompute_daily_summary demo_db 7 3)) = 90
   \<and> ds_risk_index_avg (snd (recompute_daily_summary demo_db 7 3)) = 60
   \<and> ds_risk_index_max (snd (recompute_daily_summary demo_db 7 3)) = 80"
  using C8_daily_summary[OF demo_rows] by (simp add: demo_rows)

subsection \<open>The session recorder\<close>












lemma start_session_idle:
  assumes "r_session_id r = None" "valid_kind (cfg_kind (r_cfg r))"
  shows "start_session clk (r, w) =
    ((r\<lparr>r_session_id := Some (db_sensor_sessions_seq (w_db w) + 1),
        r_last_flush_ms := Some (clk (Suc (w_tick w)))\<rparr>,
      \<lparr>w_db = (w_db w)\<lparr>db_sensor_sessions := db_sensor_sessions (w_db w) @
                [\<lparr>ss_id = db_sensor_sessions_seq (w_db w) + 1, ss_user_id = cfg_user_id (r_cfg r),
                  ss_kind = strip (cfg_kind (r_cfg r)), ss_mode = cfg_mode (r_cfg r),
                  ss_sport = cfg_sport (r_cfg r), ss_started_at = clk (w_tick w) div 1000,
                  ss_ended_at = None\<rparr>],
              db_sensor_sessions_seq := db_sensor_sessions_seq (w_db w) + 1\<rparr>,
       w_tick = Suc (Suc (w_tick w))\<rparr>),
     Inr (db_sensor_sessions_seq (w_db w) + 1))"
  using assms
  by (simp add: start_session_def start_sensor_session_def valid_kind_def now_ms_def Let_def)












text \<open>
  C10. While a session is active, \<^verbatim>\<open>start_session\<close> returns its identifier and leaves the
  recorder and the world (the database, the clock readings) as they are; so when a call of
  \<^verbatim>\<open>start_session\<close> has returned an identifier, the next call returns the same one and
  opens no second session.
\<close>

theorem C10_start_idempotent:
  "(r_session_id r = Some sid \<longrightarrow> start_session clk (r, w) = ((r, w), Inr sid))
   \<and> (start_session clk rw = (rw1, Inr sid) \<longrightarrow> start_session clk rw1 = (rw1, Inr sid))"
proof -
  have 1: "start_session clk (r, w) = ((r, w), Inr sid)" if "r_session_id r = Some sid" for r w
    using that by (simp add: start_session_def)
  have "r_session_id (fst rw1) = Some sid" if "start_session clk rw = (rw1, Inr sid)"
    using that
    by (cases rw) (auto simp: start_session_def Let_def split: option.splits sum.splits prod.splits)
  with 1[of "fst rw1" "snd rw1"] show ?thesis using 1 by auto
qed

text \<open>
  A fresh recorder on an empty database: the first call opens session 1, the second returns
  1 and the table of sessions still has one row.
\<close>

theorem C10_start_idempotent_witness:
  "r_session_id (SessionRecorder_init demo_cfg) = None
   \<and> snd (start_session demo_clk (SessionRecorder_init demo_cfg, demo_world)) = Inr 1
   \<and> start_session demo_clk (fst (start_session demo_clk (SessionRecorder_init demo_cfg, demo_world)))
       = (fst (start_session demo_clk (SessionRecorder_init demo_cfg, demo_world)), Inr 1)
   \<and> length (db_sensor_sessions (w_db (snd (fst (start_session demo_clk
         (fst (start_session demo_clk (SessionRecorder_init demo_cfg, demo_world)))))))) = 1"
proof -
  have v: "valid_kind (cfg_kind (r_cfg (SessionRecorder_init demo_cfg)))"
    by (simp add: valid_kind_def SessionRecorder_init_def demo_cfg_def strip_def is_space_def)
  have n: "r_session_id (SessionRecorder_init demo_cfg) = None"
    by (simp add: SessionRecorder_init_def)
  note first = start_session_idle[OF n v, of demo_clk demo_world]
  have sid: "db_sensor_sessions_seq (w_db demo_world) + 1 = 1"
    by (simp add: demo_world_def empty_db_def)
  from C10_start_idempotent[of "fst (fst (start_session demo_clk (SessionRecorder_init demo_cfg, demo_world)))" 1
        demo_clk "snd (fst (start_session demo_clk (SessionRecorder_init demo_cfg, demo_world)))"
        "(SessionRecorder_init demo_cfg, demo_world)"
        "fst (start_session demo_clk (SessionRecorder_init demo_cfg, demo_world))"]
  show ?thesis
    unfolding first sid by (simp add: n demo_world_def empty_db_def)
qed






subsection \<open>The recording loop of the monitor view\<close>



























end
